theory Spec2Isabelle
  imports Complex_Main
begin

section \<open>Python values, exceptions and log records\<close>

text \<open>
  The values that travel through \<^verbatim>\<open>StrategyResolver\<close>: configuration entries and
  strategy attributes. A float is modelled by the rational number it denotes; a dict is
  the list of its items in insertion order.
\<close>

datatype val =
    VNone
  | VBool bool
  | VInt int
  | VFloat rat
  | VStr string
  | VList "val list"
  | VDict "(val \<times> val) list"

text \<open>
  The exceptions that the module raises itself (\<^verbatim>\<open>OperationalException\<close>,
  \<^verbatim>\<open>ImportError\<close>, each with its message) and those raised by the Python
  operations it uses.
\<close>

datatype error =
    OperationalException string
  | ImportError string
  | AttributeError
  | TypeError
  | ValueError
  | OverflowError
  | DecodeError

text \<open>The calls of \<^verbatim>\<open>logger\<close>, one constructor for each call site.\<close>

datatype log_record =
    Warning_deprecated_ticker_interval
  | Info_override string val
  | Info_strategy_using string val
  | Info_loading_base64

text \<open>
  A call either raises (\<open>Inl\<close>) or returns (\<open>Inr\<close>). A raised exception is all
  that the model keeps of a failed call: what the call had already written to the
  strategy or the configuration is not part of the result.
\<close>

definition ebind :: "error + 'a \<Rightarrow> ('a \<Rightarrow> error + 'b) \<Rightarrow> error + 'b" where
  "ebind m f = (case m of Inl e \<Rightarrow> Inl e | Inr x \<Rightarrow> f x)"

section \<open>The strategy object and the configuration\<close>

text \<open>
  A strategy instance as the resolver sees it: the name of its class, the read-only
  properties defined on its type (with the value the getter returns), its data
  attributes (instance or class level), and the number of declared arguments of the
  three methods that \<^verbatim>\<open>getfullargspec\<close> inspects. A property has no setter, and
  its getter returns the same value throughout the call.
\<close>

record plugin =
  class_name :: string
  props :: "string \<rightharpoonup> val"
  attrs :: "string \<rightharpoonup> val"
  populate_indicators_args :: nat
  populate_buy_trend_args :: nat
  populate_sell_trend_args :: nat

type_synonym config = "string \<rightharpoonup> val"

text \<open>\<^verbatim>\<open>getattr(strategy, a)\<close>: a property of the type shadows the instance dictionary.\<close>

definition getattr_py :: "plugin \<Rightarrow> string \<Rightarrow> val option" where
  "getattr_py s a = (case props s a of Some v \<Rightarrow> Some v | None \<Rightarrow> attrs s a)"

definition hasattr :: "plugin \<Rightarrow> string \<Rightarrow> bool" where
  "hasattr s a = (getattr_py s a \<noteq> None)"

text \<open>\<^verbatim>\<open>isinstance(getattr(type(strategy), a, None), property)\<close>\<close>

definition is_property :: "plugin \<Rightarrow> string \<Rightarrow> bool" where
  "is_property s a = (props s a \<noteq> None)"

text \<open>\<^verbatim>\<open>strategy.a\<close> as an expression: raises \<^verbatim>\<open>AttributeError\<close> when absent.\<close>

definition attribute_of :: "plugin \<Rightarrow> string \<Rightarrow> error + val" where
  "attribute_of s a = (case getattr_py s a of None \<Rightarrow> Inl AttributeError | Some v \<Rightarrow> Inr v)"

text \<open>\<^verbatim>\<open>setattr(strategy, a, v)\<close>: a read-only property cannot be assigned.\<close>

definition setattr_py :: "plugin \<Rightarrow> string \<Rightarrow> val \<Rightarrow> error + plugin" where
  "setattr_py s a v =
     (if is_property s a then Inl AttributeError
      else Inr (s\<lparr>attrs := (attrs s)(a \<mapsto> v)\<rparr>))"

section \<open>The override engine\<close>

text \<open>
  \<^verbatim>\<open>_override_attribute_helper(strategy, config, attribute, default)\<close>. The strategy
  and the configuration are mutated in place; the model returns both, with the log
  records the call emitted. A default of \<^verbatim>\<open>None\<close> is \<^const>\<open>VNone\<close>.
\<close>

definition override_attribute_helper ::
  "plugin \<Rightarrow> config \<Rightarrow> string \<Rightarrow> val \<Rightarrow> error + (plugin \<times> config \<times> log_record list)" where
  "override_attribute_helper strategy cfg attribute dflt =
     (case (cfg attribute, is_property strategy attribute) of
        (Some cv, False) \<Rightarrow>
          ebind (setattr_py strategy attribute cv)
            (\<lambda>s'. Inr (s', cfg, [Info_override attribute cv]))
      | _ \<Rightarrow>
          if hasattr strategy attribute then
            (case getattr_py strategy attribute of
               Some v \<Rightarrow>
                 if v \<noteq> VNone then Inr (strategy, cfg(attribute \<mapsto> v), [])
                 else Inr (strategy, cfg, [])
             | None \<Rightarrow> Inl AttributeError)
          else if dflt \<noteq> VNone then
            ebind (setattr_py strategy attribute dflt)
              (\<lambda>s'. Inr (s', cfg(attribute \<mapsto> dflt), []))
          else Inr (strategy, cfg, []))"

text \<open>The catalog of \<^verbatim>\<open>load_strategy\<close>, in source order.\<close>

definition attributes :: "(string \<times> val) list" where
  "attributes =
     [(''minimal_roi'', VDict [(VStr ''0'', VFloat 10)]),
      (''timeframe'', VNone),
      (''stoploss'', VNone),
      (''trailing_stop'', VNone),
      (''trailing_stop_positive'', VNone),
      (''trailing_stop_positive_offset'', VFloat 0),
      (''trailing_only_offset_is_reached'', VNone),
      (''use_custom_stoploss'', VNone),
      (''process_only_new_candles'', VNone),
      (''order_types'', VNone),
      (''order_time_in_force'', VNone),
      (''stake_currency'', VNone),
      (''stake_amount'', VNone),
      (''protections'', VNone),
      (''startup_candle_count'', VNone),
      (''unfilledtimeout'', VNone),
      (''use_sell_signal'', VBool True),
      (''sell_profit_only'', VBool False),
      (''ignore_roi_if_buy_signal'', VBool False),
      (''sell_profit_offset'', VFloat 0),
      (''disable_dataframe_checks'', VBool False),
      (''ignore_buying_expired_candle_after'', VInt 0)]"

text \<open>
  \<^verbatim>\<open>for attribute, default in attributes: _override_attribute_helper(...)\<close>
\<close>

fun override_attributes ::
  "plugin \<Rightarrow> config \<Rightarrow> log_record list \<Rightarrow> (string \<times> val) list
     \<Rightarrow> error + (plugin \<times> config \<times> log_record list)" where
  "override_attributes strategy cfg lg [] = Inr (strategy, cfg, lg)"
| "override_attributes strategy cfg lg ((attribute, dflt) # rest) =
     (case override_attribute_helper strategy cfg attribute dflt of
        Inl e \<Rightarrow> Inl e
      | Inr (s', cfg', lg') \<Rightarrow> override_attributes s' cfg' (lg @ lg') rest)"

section \<open>What the module takes from outside\<close>

text \<open>
  The module imports two constants from \<^verbatim>\<open>freqtrade.constants\<close> and calls the
  inherited \<^verbatim>\<open>build_search_paths\<close> and \<^verbatim>\<open>_load_object\<close>; none of them is
  in this source file, so they are parameters. So are the conversions of Python whose
  result depends on parsing or rounding (\<^verbatim>\<open>int(str)\<close>, \<^verbatim>\<open>float(str)\<close>,
  \<^verbatim>\<open>float(int)\<close>), \<^verbatim>\<open>urlsafe_b64decode(...).decode('utf-8')\<close>, the directory
  that \<^verbatim>\<open>tempfile.mkdtemp\<close> creates and \<^verbatim>\<open>Path.resolve\<close>.
\<close>

record env =
  int_of_str :: "string \<Rightarrow> error + int"
  float_of_str :: "string \<Rightarrow> error + rat"
  float_of_int :: "int \<Rightarrow> error + rat"
  REQUIRED_ORDERTYPES :: "string list"
  REQUIRED_ORDERTIF :: "string list"
  build_search_paths :: "config \<Rightarrow> val option \<Rightarrow> string list"
  load_object :: "string list \<Rightarrow> string \<Rightarrow> config \<Rightarrow> plugin option"
  mkdtemp :: string
  resolve :: "string \<Rightarrow> string"
  b64_utf8_decode :: "string \<Rightarrow> error + string"

section \<open>Python operations on values\<close>

text \<open>Truth value of an object, as \<^verbatim>\<open>if x:\<close> and \<^verbatim>\<open>not x\<close> test it.\<close>

fun py_truthy :: "val \<Rightarrow> bool" where
  "py_truthy VNone = False"
| "py_truthy (VBool b) = b"
| "py_truthy (VInt i) = (i \<noteq> 0)"
| "py_truthy (VFloat q) = (q \<noteq> 0)"
| "py_truthy (VStr s) = (s \<noteq> [])"
| "py_truthy (VList xs) = (xs \<noteq> [])"
| "py_truthy (VDict items) = (items \<noteq> [])"

text \<open>\<^verbatim>\<open>int(x)\<close>\<close>

fun py_int :: "env \<Rightarrow> val \<Rightarrow> error + int" where
  "py_int e (VInt i) = Inr i"
| "py_int e (VBool b) = Inr (if b then 1 else 0)"
| "py_int e (VFloat q) = Inr (if 0 \<le> q then \<lfloor>q\<rfloor> else \<lceil>q\<rceil>)"
| "py_int e (VStr s) = int_of_str e s"
| "py_int e VNone = Inl TypeError"
| "py_int e (VList xs) = Inl TypeError"
| "py_int e (VDict items) = Inl TypeError"

text \<open>\<^verbatim>\<open>float(x)\<close>\<close>

fun py_float :: "env \<Rightarrow> val \<Rightarrow> error + rat" where
  "py_float e (VFloat q) = Inr q"
| "py_float e (VInt i) = float_of_int e i"
| "py_float e (VBool b) = Inr (if b then 1 else 0)"
| "py_float e (VStr s) = float_of_str e s"
| "py_float e VNone = Inl TypeError"
| "py_float e (VList xs) = Inl TypeError"
| "py_float e (VDict items) = Inl TypeError"

text \<open>\<^verbatim>\<open>d[k] = v\<close>: an existing key keeps its position, a new key is appended.\<close>

fun dict_setitem :: "('k \<times> 'v) list \<Rightarrow> 'k \<Rightarrow> 'v \<Rightarrow> ('k \<times> 'v) list" where
  "dict_setitem [] k v = [(k, v)]"
| "dict_setitem ((k', v') # d) k v =
     (if k' = k then (k', v) # d else (k', v') # dict_setitem d k v)"

text \<open>\<^verbatim>\<open>d.get(k, default)\<close> for a string key; only a dict has the method.\<close>

fun dict_get :: "val \<Rightarrow> string \<Rightarrow> val \<Rightarrow> error + val" where
  "dict_get (VDict items) k dflt =
     Inr (case map_of items (VStr k) of Some v \<Rightarrow> v | None \<Rightarrow> dflt)"
| "dict_get _ k dflt = Inl AttributeError"

text \<open>\<^verbatim>\<open>sub in s\<close> for two strings.\<close>

fun is_substring :: "string \<Rightarrow> string \<Rightarrow> bool" where
  "is_substring sub [] = (sub = [])"
| "is_substring sub (c # cs) = (take (length sub) (c # cs) = sub \<or> is_substring sub cs)"

text \<open>\<^verbatim>\<open>k in x\<close> for a string \<^verbatim>\<open>k\<close>.\<close>

fun py_contains :: "val \<Rightarrow> string \<Rightarrow> error + bool" where
  "py_contains (VDict items) k = Inr (VStr k \<in> set (map fst items))"
| "py_contains (VList xs) k = Inr (VStr k \<in> set xs)"
| "py_contains (VStr s) k = Inr (is_substring k s)"
| "py_contains _ k = Inl TypeError"

text \<open>\<^verbatim>\<open>s.split(sep)\<close> for a separator of one character.\<close>

fun split_on :: "char \<Rightarrow> string \<Rightarrow> string list" where
  "split_on sep [] = [[]]"
| "split_on sep (c # cs) =
     (if c = sep then [] # split_on sep cs
      else (case split_on sep cs of p # ps \<Rightarrow> (c # p) # ps | [] \<Rightarrow> [[c]]))"

section \<open>Compatibility alias and hyperopt parameters\<close>

text \<open>
  Lines 48--54 of \<^verbatim>\<open>load_strategy\<close>: a strategy that still declares
  \<^verbatim>\<open>ticker_interval\<close> and no \<^verbatim>\<open>timeframe\<close>.
\<close>

definition ticker_interval_compat ::
  "plugin \<Rightarrow> config \<Rightarrow> error + (plugin \<times> log_record list)" where
  "ticker_interval_compat strategy cfg =
     (if hasattr strategy ''ticker_interval'' \<and> \<not> hasattr strategy ''timeframe'' then
        if cfg ''timeframe'' = None then
          ebind (attribute_of strategy ''ticker_interval'')
            (\<lambda>ti. ebind (setattr_py strategy ''timeframe'' ti)
               (\<lambda>s'. Inr (s', [Warning_deprecated_ticker_interval])))
        else Inr (strategy, [])
      else Inr (strategy, []))"

text \<open>\<^verbatim>\<open>strategy.attr = d.get(key, strategy.attr)\<close>\<close>

definition overlay_attribute :: "plugin \<Rightarrow> val \<Rightarrow> string \<Rightarrow> string \<Rightarrow> error + plugin" where
  "overlay_attribute strategy d key attr =
     ebind (attribute_of strategy attr)
       (\<lambda>cur. ebind (dict_get d key cur) (\<lambda>v. setattr_py strategy attr v))"

text \<open>
  Lines 56--69 of \<^verbatim>\<open>load_strategy\<close>: the parameters of a hyperopt results file,
  when the strategy carries them.
\<close>

definition params_from_file :: "plugin \<Rightarrow> error + plugin" where
  "params_from_file strategy =
     ebind (attribute_of strategy ''_ft_params_from_file'')
       (\<lambda>params.
          if py_truthy params then
            ebind (overlay_attribute strategy params ''roi'' ''minimal_roi'')
              (\<lambda>s1. ebind (dict_get params ''stoploss'' (VDict []))
              (\<lambda>sl. ebind (overlay_attribute s1 sl ''stoploss'' ''stoploss'')
              (\<lambda>s2. ebind (dict_get params ''trailing'' (VDict []))
              (\<lambda>trailing.
                 ebind (overlay_attribute s2 trailing ''trailing_stop'' ''trailing_stop'')
              (\<lambda>s3. ebind (overlay_attribute s3 trailing
                              ''trailing_stop_positive'' ''trailing_stop_positive'')
              (\<lambda>s4. ebind (overlay_attribute s4 trailing
                              ''trailing_stop_positive_offset'' ''trailing_stop_positive_offset'')
              (\<lambda>s5. overlay_attribute s5 trailing
                       ''trailing_only_offset_is_reached''
                       ''trailing_only_offset_is_reached'')))))))
          else Inr strategy)"

section \<open>Normalization\<close>

text \<open>
  \<^verbatim>\<open>{int(key): value for (key, value) in d.items()}\<close>, built item by item.
\<close>

fun int_keys :: "env \<Rightarrow> (val \<times> val) list \<Rightarrow> (int \<times> val) list \<Rightarrow> error + (int \<times> val) list" where
  "int_keys e [] acc = Inr acc"
| "int_keys e ((key, v) # items) acc =
     (case py_int e key of
        Inl err \<Rightarrow> Inl err
      | Inr k \<Rightarrow> int_keys e items (dict_setitem acc k v))"

text \<open>
  \<^verbatim>\<open>dict(sorted({...}.items(), key=lambda t: t[0]))\<close>; \<^verbatim>\<open>.items()\<close> exists on a
  dict only.
\<close>

definition normalize_minimal_roi :: "env \<Rightarrow> val \<Rightarrow> error + val" where
  "normalize_minimal_roi e roi =
     (case roi of
        VDict items \<Rightarrow>
          ebind (int_keys e items [])
            (\<lambda>d. Inr (VDict (map (\<lambda>(k, v). (VInt k, v)) (sort_key fst d))))
      | _ \<Rightarrow> Inl AttributeError)"

text \<open>\<^verbatim>\<open>_normalize_attributes(strategy)\<close>\<close>

definition normalize_attributes :: "env \<Rightarrow> plugin \<Rightarrow> error + plugin" where
  "normalize_attributes e strategy =
     ebind (if hasattr strategy ''timeframe'' then
              ebind (attribute_of strategy ''timeframe'')
                (\<lambda>tf. setattr_py strategy ''ticker_interval'' tf)
            else Inr strategy)
       (\<lambda>s1.
     ebind (if hasattr s1 ''minimal_roi'' then
              ebind (attribute_of s1 ''minimal_roi'')
                (\<lambda>roi. ebind (normalize_minimal_roi e roi)
                   (\<lambda>roi'. setattr_py s1 ''minimal_roi'' roi'))
            else Inr s1)
       (\<lambda>s2.
     if hasattr s2 ''stoploss'' then
       ebind (attribute_of s2 ''stoploss'')
         (\<lambda>sl. ebind (py_float e sl) (\<lambda>f. setattr_py s2 ''stoploss'' (VFloat f)))
     else Inr s2))"

section \<open>Sanity validations\<close>

text \<open>
  \<^verbatim>\<open>all(k in strategy.a for k in required)\<close>: the attribute is read once for each
  key, and the scan stops at the first key that is missing.
\<close>

fun all_keys_in :: "plugin \<Rightarrow> string \<Rightarrow> string list \<Rightarrow> error + bool" where
  "all_keys_in strategy a [] = Inr True"
| "all_keys_in strategy a (k # ks) =
     ebind (attribute_of strategy a)
       (\<lambda>m. ebind (py_contains m k)
          (\<lambda>b. if b then all_keys_in strategy a ks else Inr False))"

definition order_types_incomplete :: "string \<Rightarrow> string" where
  "order_types_incomplete cls =
     ''Impossible to load Strategy '' @ [CHR 0x27] @ cls @ [CHR 0x27]
       @ ''. Order-types mapping is incomplete.''"

definition order_tif_incomplete :: "string \<Rightarrow> string" where
  "order_tif_incomplete cls =
     ''Impossible to load Strategy '' @ [CHR 0x27] @ cls @ [CHR 0x27]
       @ ''. Order-time-in-force mapping is incomplete.''"

text \<open>\<^verbatim>\<open>_strategy_sanity_validations(strategy)\<close>\<close>

definition strategy_sanity_validations :: "env \<Rightarrow> plugin \<Rightarrow> error + unit" where
  "strategy_sanity_validations e strategy =
     ebind (all_keys_in strategy ''order_types'' (REQUIRED_ORDERTYPES e))
       (\<lambda>ok. if \<not> ok then Inl (ImportError (order_types_incomplete (class_name strategy)))
          else ebind (all_keys_in strategy ''order_time_in_force'' (REQUIRED_ORDERTIF e))
            (\<lambda>ok'. if \<not> ok'
               then Inl (ImportError (order_tif_incomplete (class_name strategy)))
               else Inr ()))"

section \<open>Locating and loading the strategy\<close>

text \<open>What the module does to the file system, in order.\<close>

datatype fs_event =
    Mkdtemp string
  | Write_text string string string
  | Touch string string

text \<open>
  Lines 180--194 of \<^verbatim>\<open>_load_strategy\<close>: a name of the form
  \<^verbatim>\<open>name:base64\<close>. The result is the name to look up, the search path, the log
  records and the file-system events.
\<close>

definition encoded_source ::
  "env \<Rightarrow> string \<Rightarrow> string list
     \<Rightarrow> error + (string \<times> string list \<times> log_record list \<times> fs_event list)" where
  "encoded_source e strategy_name abs_paths =
     (if CHR '':'' \<in> set strategy_name then
        (let strat = split_on CHR '':'' strategy_name in
         if length strat = 2 then
           (let temp = mkdtemp e; name = strat ! 0 @ ''.py'' in
            ebind (b64_utf8_decode e (strat ! 1))
              (\<lambda>text. Inr (strat ! 0, resolve e temp # abs_paths, [Info_loading_base64],
                        [Mkdtemp temp, Write_text temp name text, Touch temp ''__init__.py''])))
         else Inr (strategy_name, abs_paths, [Info_loading_base64], []))
      else Inr (strategy_name, abs_paths, [], []))"

text \<open>
  Lines 203--212 of \<^verbatim>\<open>_load_strategy\<close>: the argument counts, and the interface
  version they imply.
\<close>

definition interface_version :: "plugin \<Rightarrow> error + plugin" where
  "interface_version strategy =
     ebind (setattr_py strategy ''_populate_fun_len''
              (VInt (int (populate_indicators_args strategy))))
       (\<lambda>s1. ebind (setattr_py s1 ''_buy_fun_len'' (VInt (int (populate_buy_trend_args s1))))
       (\<lambda>s2. ebind (setattr_py s2 ''_sell_fun_len'' (VInt (int (populate_sell_trend_args s2))))
       (\<lambda>s3. ebind (attribute_of s3 ''_populate_fun_len'')
       (\<lambda>x1. ebind (attribute_of s3 ''_buy_fun_len'')
       (\<lambda>x2. ebind (attribute_of s3 ''_sell_fun_len'')
       (\<lambda>x3. if x1 = VInt 2 \<or> x2 = VInt 2 \<or> x3 = VInt 2
              then setattr_py s3 ''INTERFACE_VERSION'' (VInt 1)
              else Inr s3))))))"

definition impossible_to_load :: "string \<Rightarrow> string" where
  "impossible_to_load strategy_name =
     ''Impossible to load Strategy '' @ [CHR 0x27] @ strategy_name @ [CHR 0x27]
       @ ''. This class does not exist or contains Python code errors.''"

text \<open>\<^verbatim>\<open>_load_strategy(strategy_name, config, extra_dir)\<close>\<close>

definition priv_load_strategy ::
  "env \<Rightarrow> string \<Rightarrow> config \<Rightarrow> val option
     \<Rightarrow> error + (plugin \<times> log_record list \<times> fs_event list)" where
  "priv_load_strategy e strategy_name cfg extra_dir =
     (let abs_paths = build_search_paths e cfg extra_dir in
      ebind (encoded_source e strategy_name abs_paths)
        (\<lambda>(name, paths, lg, fs).
           case load_object e paths name cfg of
             Some strategy \<Rightarrow> ebind (interface_version strategy) (\<lambda>s. Inr (s, lg, fs))
           | None \<Rightarrow> Inl (OperationalException (impossible_to_load name))))"

section \<open>The entry point\<close>

definition no_strategy_set :: string where
  "no_strategy_set =
     ''No strategy set. Please use `--strategy` to specify the strategy class to use.''"

text \<open>The second loop over the catalog, which logs what the configuration now holds.\<close>

definition log_attributes :: "config \<Rightarrow> (string \<times> val) list \<Rightarrow> log_record list" where
  "log_attributes cfg xs =
     concat (map (\<lambda>(attribute, _).
        case cfg attribute of Some v \<Rightarrow> [Info_strategy_using attribute v] | None \<Rightarrow> []) xs)"

text \<open>
  Everything of \<^verbatim>\<open>load_strategy\<close> after the strategy object exists (lines 48--109).
\<close>

definition resolve_attributes ::
  "env \<Rightarrow> plugin \<Rightarrow> config \<Rightarrow> error + (plugin \<times> config \<times> log_record list)" where
  "resolve_attributes e strategy cfg =
     ebind (ticker_interval_compat strategy cfg)
       (\<lambda>(s1, lg1). ebind (params_from_file s1)
       (\<lambda>s2. ebind (override_attributes s2 cfg lg1 attributes)
       (\<lambda>(s3, cfg3, lg3). ebind (normalize_attributes e s3)
       (\<lambda>s4. ebind (strategy_sanity_validations e s4)
       (\<lambda>_. Inr (s4, cfg3, lg3 @ log_attributes cfg3 attributes))))))"

text \<open>
  \<^verbatim>\<open>load_strategy(config)\<close>. The argument is \<^const>\<open>None\<close> for Python's
  \<^verbatim>\<open>None\<close>. The result holds the strategy, the configuration as the call leaves it,
  the log and the file-system events. The entry \<^verbatim>\<open>strategy\<close> is declared a string; a
  truthy value of another type stops with \<^verbatim>\<open>TypeError\<close>, as \<^verbatim>\<open>":" in 5\<close> does.
\<close>

definition load_strategy ::
  "env \<Rightarrow> config option
     \<Rightarrow> error + (plugin \<times> config \<times> log_record list \<times> fs_event list)" where
  "load_strategy e config =
     (let cfg = (case config of None \<Rightarrow> Map.empty | Some c \<Rightarrow> c) in
      if \<not> (case cfg ''strategy'' of None \<Rightarrow> False | Some v \<Rightarrow> py_truthy v) then
        Inl (OperationalException no_strategy_set)
      else
        (case cfg ''strategy'' of
           Some (VStr strategy_name) \<Rightarrow>
             ebind (priv_load_strategy e strategy_name cfg (cfg ''strategy_path''))
               (\<lambda>(strategy, lg, fs). ebind (resolve_attributes e strategy cfg)
               (\<lambda>(s, cfg', lg'). Inr (s, cfg', lg @ lg', fs)))
         | _ \<Rightarrow> Inl TypeError))"

section \<open>A sample environment and a sample strategy\<close>

text \<open>
  Concrete inputs for the worked examples below. The sample \<^verbatim>\<open>int(str)\<close> reads an
  optional minus sign and decimal digits; the sample \<^verbatim>\<open>float(str)\<close> knows the one
  literal the examples use.
\<close>

fun digits_value :: "string \<Rightarrow> int \<Rightarrow> error + int" where
  "digits_value [] acc = Inr acc"
| "digits_value (c # cs) acc =
     (if 48 \<le> (of_char c :: nat) \<and> (of_char c :: nat) \<le> 57
      then digits_value cs (10 * acc + int (of_char c) - 48)
      else Inl ValueError)"

definition sample_int_of_str :: "string \<Rightarrow> error + int" where
  "sample_int_of_str s =
     (case s of
        [] \<Rightarrow> Inl ValueError
      | c # cs \<Rightarrow>
          if c = CHR ''-'' then
            (if cs = [] then Inl ValueError
             else ebind (digits_value cs 0) (\<lambda>n. Inr (- n)))
          else digits_value (c # cs) 0)"

definition sample_order_types :: val where
  "sample_order_types =
     VDict [(VStr ''entry'', VStr ''limit''), (VStr ''exit'', VStr ''limit''),
            (VStr ''stoploss'', VStr ''market''), (VStr ''stoploss_on_exchange'', VBool False)]"

definition sample_order_time_in_force :: val where
  "sample_order_time_in_force = VDict [(VStr ''entry'', VStr ''gtc''), (VStr ''exit'', VStr ''gtc'')]"

definition sample_strategy :: plugin where
  "sample_strategy =
     \<lparr>class_name = ''SampleStrategy'',
      props = Map.empty,
      attrs = [''minimal_roi'' \<mapsto> VDict [(VStr ''20'', VFloat (1 / 20)), (VStr ''0'', VFloat (1 / 10))],
               ''stoploss'' \<mapsto> VStr ''-0.10'',
               ''timeframe'' \<mapsto> VStr ''5m'',
               ''order_types'' \<mapsto> sample_order_types,
               ''order_time_in_force'' \<mapsto> sample_order_time_in_force,
               ''_ft_params_from_file'' \<mapsto> VDict [],
               ''INTERFACE_VERSION'' \<mapsto> VInt 2],
      populate_indicators_args = 3,
      populate_buy_trend_args = 3,
      populate_sell_trend_args = 3\<rparr>"

text \<open>The sample environment finds one strategy, the one it is given, under its class name.\<close>

definition sample_env :: "plugin \<Rightarrow> env" where
  "sample_env p =
     \<lparr>int_of_str = sample_int_of_str,
      float_of_str = (\<lambda>s. if s = ''-0.10'' then Inr (- (1 / 10)) else Inl ValueError),
      float_of_int = (\<lambda>i. Inr (of_int i)),
      REQUIRED_ORDERTYPES = [''entry'', ''exit'', ''stoploss'', ''stoploss_on_exchange''],
      REQUIRED_ORDERTIF = [''entry'', ''exit''],
      build_search_paths = (\<lambda>cfg extra_dir. [''user_data/strategies'']),
      load_object = (\<lambda>paths name cfg. if name = class_name p then Some p else None),
      mkdtemp = ''/tmp/strategy0freq'',
      resolve = (\<lambda>path. path),
      b64_utf8_decode = (\<lambda>s. if s = ''cGFzcw=='' then Inr ''pass'' else Inl DecodeError)\<rparr>"

text \<open>A strategy whose type defines \<^verbatim>\<open>timeframe\<close> as a read-only property.\<close>

definition property_strategy :: plugin where
  "property_strategy = sample_strategy\<lparr>props := [''timeframe'' \<mapsto> VStr ''1h'']\<rparr>"

text \<open>The attributes that lines 59--69 of \<^verbatim>\<open>load_strategy\<close> assign.\<close>

definition overlay_targets :: "string set" where
  "overlay_targets = {''minimal_roi'', ''stoploss'', ''trailing_stop'', ''trailing_stop_positive'',
     ''trailing_stop_positive_offset'', ''trailing_only_offset_is_reached''}"

section \<open>Observations and further sample inputs\<close>

text \<open>
  What \<^verbatim>\<open>load_strategy\<close> leaves for one attribute: the value on the strategy it
  returns, and the entry of the configuration.
\<close>

definition resolved_attribute ::
  "env \<Rightarrow> config option \<Rightarrow> string \<Rightarrow> (val option \<times> val option) option" where
  "resolved_attribute e config a =
     (case load_strategy e config of
        Inl _ \<Rightarrow> None
      | Inr (s, cfg', _, _) \<Rightarrow> Some (getattr_py s a, cfg' a))"

definition bare_config :: config where
  "bare_config = [''strategy'' \<mapsto> VStr ''SampleStrategy'']"

definition sample_config :: config where
  "sample_config =
     [''strategy'' \<mapsto> VStr ''SampleStrategy'',
      ''minimal_roi'' \<mapsto> VDict [(VStr ''0'', VFloat (1 / 10))],
      ''use_sell_signal'' \<mapsto> VBool False]"

text \<open>A strategy that declares \<^verbatim>\<open>use_sell_signal = None\<close>.\<close>

definition null_strategy :: plugin where
  "null_strategy = sample_strategy\<lparr>attrs := (attrs sample_strategy)(''use_sell_signal'' \<mapsto> VNone)\<rparr>"

text \<open>A strategy that carries the parameters of a hyperopt results file.\<close>

definition hyperopt_strategy :: plugin where
  "hyperopt_strategy =
     sample_strategy\<lparr>attrs := (attrs sample_strategy)
       (''trailing_stop'' \<mapsto> VBool False,
        ''trailing_stop_positive'' \<mapsto> VNone,
        ''trailing_stop_positive_offset'' \<mapsto> VFloat 0,
        ''trailing_only_offset_is_reached'' \<mapsto> VBool False,
        ''_ft_params_from_file'' \<mapsto>
          VDict [(VStr ''roi'', VDict [(VStr ''0'', VFloat (1 / 2))])])\<rparr>"

text \<open>A strategy that still declares \<^verbatim>\<open>ticker_interval\<close> and no \<^verbatim>\<open>timeframe\<close>.\<close>

definition legacy_strategy :: plugin where
  "legacy_strategy =
     sample_strategy\<lparr>attrs := (attrs sample_strategy)
       (''timeframe'' := None, ''ticker_interval'' \<mapsto> VStr ''1h'')\<rparr>"

text \<open>A strategy whose \<^verbatim>\<open>order_types\<close> lacks \<^verbatim>\<open>stoploss_on_exchange\<close>.\<close>

definition incomplete_strategy :: plugin where
  "incomplete_strategy =
     sample_strategy\<lparr>attrs := (attrs sample_strategy)
       (''order_types'' \<mapsto>
          VDict [(VStr ''entry'', VStr ''limit''), (VStr ''exit'', VStr ''limit''),
                 (VStr ''stoploss'', VStr ''market'')])\<rparr>"


section \<open>Basic facts\<close>

lemma ebind_Inr_iff: "ebind m f = Inr y \<longleftrightarrow> (\<exists>x. m = Inr x \<and> f x = Inr y)"
  by (cases m) (simp_all add: ebind_def)

lemma ebind_Inr [simp]: "ebind (Inr x) f = f x"
  by (simp add: ebind_def)

lemma ebind_Inl [simp]: "ebind (Inl e) f = Inl e"
  by (simp add: ebind_def)

lemma setattr_py_Inr_iff:
  "setattr_py s a v = Inr s' \<longleftrightarrow> props s a = None \<and> s' = s\<lparr>attrs := (attrs s)(a \<mapsto> v)\<rparr>"
  by (auto simp: setattr_py_def is_property_def)

lemma helper_cases:
  "override_attribute_helper s c a d =
     (case c a of
        Some cv \<Rightarrow>
          (case props s a of
             None \<Rightarrow> Inr (s\<lparr>attrs := (attrs s)(a \<mapsto> cv)\<rparr>, c, [Info_override a cv])
           | Some pv \<Rightarrow> Inr (s, if pv \<noteq> VNone then c(a \<mapsto> pv) else c, []))
      | None \<Rightarrow>
          (case getattr_py s a of
             Some v \<Rightarrow> Inr (s, if v \<noteq> VNone then c(a \<mapsto> v) else c, [])
           | None \<Rightarrow>
               if d \<noteq> VNone then Inr (s\<lparr>attrs := (attrs s)(a \<mapsto> d)\<rparr>, c(a \<mapsto> d), [])
               else Inr (s, c, [])))"
  by (auto simp: override_attribute_helper_def is_property_def hasattr_def getattr_py_def
      setattr_py_def split: option.splits)

lemma helper_total: "\<exists>s' c' l. override_attribute_helper s c a d = Inr (s', c', l)"
  by (auto simp: helper_cases split: option.splits)

lemma helper_frame:
  assumes "override_attribute_helper s c a d = Inr (s', c', l)"
  shows "props s' = props s" and "class_name s' = class_name s"
    and "b \<noteq> a \<Longrightarrow> attrs s' b = attrs s b" and "b \<noteq> a \<Longrightarrow> c' b = c b"
  using assms by (auto simp: helper_cases split: option.splits if_splits)

lemma override_attributes_total:
  "\<exists>s' c' l'. override_attributes s c l xs = Inr (s', c', l')"
proof (induction xs arbitrary: s c l)
  case Nil
  show ?case by simp
next
  case (Cons x xs)
  obtain a d where x: "x = (a, d)" by (cases x)
  obtain s1 c1 l1 where h: "override_attribute_helper s c a d = Inr (s1, c1, l1)"
    using helper_total by blast
  show ?case using Cons.IH[of s1 c1 "l @ l1"] by (simp add: x h)
qed

lemma override_attributes_frame:
  assumes "override_attributes s c l xs = Inr (s', c', l')"
  shows "props s' = props s \<and> class_name s' = class_name s
       \<and> (b \<notin> fst ` set xs \<longrightarrow> attrs s' b = attrs s b \<and> c' b = c b)"
  using assms
proof (induction xs arbitrary: s c l)
  case Nil
  then show ?case by simp
next
  case (Cons x xs)
  obtain a d where x: "x = (a, d)" by (cases x)
  obtain s1 c1 l1 where h: "override_attribute_helper s c a d = Inr (s1, c1, l1)"
    using helper_total by blast
  from Cons.prems have r: "override_attributes s1 c1 (l @ l1) xs = Inr (s', c', l')"
    by (simp add: x h)
  from Cons.IH[OF r] helper_frame[OF h] show ?case
    by (auto simp: x)
qed

text \<open>The step of the loop that handles a given attribute, isolated.\<close>

lemma override_attributes_step:
  assumes "override_attributes s c l xs = Inr (s', c', l')"
    and "distinct (map fst xs)" and "(a, d) \<in> set xs"
  shows "\<exists>s0 c0 s1 c1 l1.
           override_attribute_helper s0 c0 a d = Inr (s1, c1, l1)
         \<and> props s0 = props s \<and> attrs s0 a = attrs s a \<and> c0 a = c a
         \<and> props s' = props s \<and> attrs s' a = attrs s1 a \<and> c' a = c1 a"
  using assms
proof (induction xs arbitrary: s c l)
  case Nil
  then show ?case by simp
next
  case (Cons x xs)
  obtain b db where x: "x = (b, db)" by (cases x)
  obtain s1 c1 l1 where h: "override_attribute_helper s c b db = Inr (s1, c1, l1)"
    using helper_total by blast
  from Cons.prems(1) have r: "override_attributes s1 c1 (l @ l1) xs = Inr (s', c', l')"
    by (simp add: x h)
  show ?case
  proof (cases "a = b")
    case True
    from Cons.prems(2) have notin: "a \<notin> fst ` set xs" using True by (simp add: x)
    with Cons.prems(3) have d: "d = db" using True by (force simp: x)
    from notin override_attributes_frame[OF r, of a] helper_frame(1)[OF h]
    have "props s' = props s" "attrs s' a = attrs s1 a" "c' a = c1 a" by auto
    with h True d show ?thesis by blast
  next
    case False
    with Cons.prems(3) have mem: "(a, d) \<in> set xs" by (simp add: x)
    note ab = False
    from Cons.prems(2) have dist: "distinct (map fst xs)" by simp
    from Cons.IH[OF r dist mem] obtain s0 c0 s2 c2 l2 where
      "override_attribute_helper s0 c0 a d = Inr (s2, c2, l2)"
      "props s0 = props s1" "attrs s0 a = attrs s1 a" "c0 a = c1 a"
      "props s' = props s1" "attrs s' a = attrs s2 a" "c' a = c2 a" by blast
    with helper_frame[OF h] ab show ?thesis by (metis)
  qed
qed

lemma distinct_attributes: "distinct (map fst attributes)"
  by (simp add: attributes_def)

lemma attribute_of_Inr_iff: "attribute_of s a = Inr v \<longleftrightarrow> getattr_py s a = Some v"
  by (simp add: attribute_of_def split: option.splits)

lemma getattr_py_update:
  "props s a = None \<Longrightarrow> getattr_py (s\<lparr>attrs := (attrs s)(a \<mapsto> v)\<rparr>) b
     = (if b = a then Some v else getattr_py s b)"
  by (auto simp: getattr_py_def split: option.splits)

lemma hasattr_not_property: "\<not> hasattr s a \<Longrightarrow> props s a = None"
  by (simp add: hasattr_def getattr_py_def split: option.splits)

lemma ticker_interval_compat_cases:
  "ticker_interval_compat s c =
     (case getattr_py s ''ticker_interval'' of
        Some ti \<Rightarrow>
          if \<not> hasattr s ''timeframe'' \<and> c ''timeframe'' = None
          then Inr (s\<lparr>attrs := (attrs s)(''timeframe'' \<mapsto> ti)\<rparr>, [Warning_deprecated_ticker_interval])
          else Inr (s, [])
      | None \<Rightarrow> Inr (s, []))"
  by (auto simp: ticker_interval_compat_def hasattr_def attribute_of_def setattr_py_def
      is_property_def getattr_py_def split: option.splits)

lemma ticker_interval_compat_frame:
  assumes "ticker_interval_compat s c = Inr (s', l)"
  shows "props s' = props s" and "class_name s' = class_name s"
    and "b \<noteq> ''timeframe'' \<Longrightarrow> attrs s' b = attrs s b"
    and "hasattr s ''timeframe'' \<Longrightarrow> s' = s"
  using assms by (auto simp: ticker_interval_compat_cases split: option.splits if_splits)

lemma overlay_attribute_Inr_iff:
  "overlay_attribute s d k a = Inr s' \<longleftrightarrow>
     (\<exists>cur v. props s a = None \<and> attrs s a = Some cur \<and> dict_get d k cur = Inr v
        \<and> s' = s\<lparr>attrs := (attrs s)(a \<mapsto> v)\<rparr>)"
  by (auto simp: overlay_attribute_def ebind_Inr_iff attribute_of_Inr_iff setattr_py_Inr_iff
      getattr_py_def split: option.splits)

lemma overlay_attribute_frame:
  assumes "overlay_attribute s d k a = Inr s'"
  shows "props s' = props s" and "class_name s' = class_name s"
    and "b \<noteq> a \<Longrightarrow> attrs s' b = attrs s b"
    and "hasattr s' b = hasattr s b"
  using assms
  by (auto simp: overlay_attribute_Inr_iff hasattr_def getattr_py_def split: option.splits if_splits)

lemma params_from_file_frame:
  assumes "params_from_file s = Inr s'"
  shows "props s' = props s \<and> class_name s' = class_name s
       \<and> (b \<notin> overlay_targets \<longrightarrow> attrs s' b = attrs s b)
       \<and> hasattr s' b = hasattr s b"
proof -
  from assms obtain params where p: "getattr_py s ''_ft_params_from_file'' = Some params"
    by (auto simp: params_from_file_def ebind_Inr_iff attribute_of_Inr_iff)
  show ?thesis
  proof (cases "py_truthy params")
    case False
    with assms p show ?thesis
      by (simp add: params_from_file_def attribute_of_def)
  next
    case True
    with assms p obtain s1 sl s2 tr s3 s4 s5 where st:
      "overlay_attribute s params ''roi'' ''minimal_roi'' = Inr s1"
      "overlay_attribute s1 sl ''stoploss'' ''stoploss'' = Inr s2"
      "overlay_attribute s2 tr ''trailing_stop'' ''trailing_stop'' = Inr s3"
      "overlay_attribute s3 tr ''trailing_stop_positive'' ''trailing_stop_positive'' = Inr s4"
      "overlay_attribute s4 tr ''trailing_stop_positive_offset'' ''trailing_stop_positive_offset'' = Inr s5"
      "overlay_attribute s5 tr ''trailing_only_offset_is_reached'' ''trailing_only_offset_is_reached'' = Inr s'"
      by (auto simp: params_from_file_def attribute_of_def ebind_Inr_iff)
    have "props s' = props s" "class_name s' = class_name s" "hasattr s' b = hasattr s b"
      using st[THEN overlay_attribute_frame(1)] st[THEN overlay_attribute_frame(2)]
        st[THEN overlay_attribute_frame(4), of b]
      by simp_all
    moreover have "b \<notin> overlay_targets \<Longrightarrow> attrs s' b = attrs s b"
      using st[THEN overlay_attribute_frame(3), of b]
      by (simp add: overlay_targets_def)
    ultimately show ?thesis by blast
  qed
qed

lemma params_from_file_falsy:
  assumes "params_from_file s = Inr s'" and "getattr_py s ''_ft_params_from_file'' = Some params"
    and "\<not> py_truthy params"
  shows "s' = s"
  using assms by (simp add: params_from_file_def attribute_of_def)

lemma map_add_upd_left_assoc: "(m(k \<mapsto> v)) ++ n = m ++ ([k \<mapsto> v] ++ n)"
  by (rule ext) (simp add: map_add_def split: option.splits)

lemma rev_zip_step:
  "map_of (rev (zip (k # ks) (map snd ((key, v) # items))))
     = [k \<mapsto> v] ++ map_of (rev (zip ks (map snd items)))"
  by (rule ext) (simp add: map_add_def split: option.splits)

lemma map_of_dict_setitem: "map_of (dict_setitem d k v) = (map_of d)(k \<mapsto> v)"
  by (induction d k v rule: dict_setitem.induct) (auto simp: fun_eq_iff)

lemma fst_set_dict_setitem: "fst ` set (dict_setitem d k v) = insert k (fst ` set d)"
  by (induction d k v rule: dict_setitem.induct) auto

lemma distinct_dict_setitem:
  "distinct (map fst d) \<Longrightarrow> distinct (map fst (dict_setitem d k v))"
proof (induction d k v rule: dict_setitem.induct)
  case (1 k v)
  show ?case by simp
next
  case (2 k' v' d k v)
  then show ?case
    using fst_set_dict_setitem[of d k v] by (auto simp: image_iff)
qed

lemma int_keys_spec:
  assumes "int_keys e items acc = Inr d"
  shows "\<exists>ks. map (\<lambda>it. py_int e (fst it)) items = map Inr ks
            \<and> map_of d = map_of acc ++ map_of (rev (zip ks (map snd items)))
            \<and> (distinct (map fst acc) \<longrightarrow> distinct (map fst d))"
  using assms
proof (induction items arbitrary: acc)
  case Nil
  then show ?case by simp
next
  case (Cons it items)
  obtain key v where it: "it = (key, v)" by (cases it)
  from Cons.prems obtain k where k: "py_int e key = Inr k"
    and r: "int_keys e items (dict_setitem acc k v) = Inr d"
    by (auto simp: it split: sum.splits)
  from Cons.IH[OF r] obtain ks where ks:
    "map (\<lambda>it. py_int e (fst it)) items = map Inr ks"
    "map_of d = map_of (dict_setitem acc k v) ++ map_of (rev (zip ks (map snd items)))"
    "distinct (map fst (dict_setitem acc k v)) \<longrightarrow> distinct (map fst d)"
    by blast
  have "map (\<lambda>it. py_int e (fst it)) (it # items) = map Inr (k # ks)"
    using ks(1) k by (simp add: it)
  moreover have "map_of d = map_of acc ++ map_of (rev (zip (k # ks) (map snd (it # items))))"
    unfolding it rev_zip_step ks(2) map_of_dict_setitem by (rule map_add_upd_left_assoc)
  moreover have "distinct (map fst acc) \<longrightarrow> distinct (map fst d)"
    using ks(3) distinct_dict_setitem[of acc k v] by simp
  ultimately show ?case by (intro exI[of _ "k # ks"] conjI)
qed

lemma int_keys_total:
  assumes "map (\<lambda>it. py_int e (fst it)) items = map Inr ks"
  shows "\<exists>d. int_keys e items acc = Inr d"
  using assms
proof (induction items arbitrary: acc ks)
  case Nil
  show ?case by simp
next
  case (Cons it items)
  obtain key v where it: "it = (key, v)" by (cases it)
  from Cons.prems obtain k ks' where "ks = k # ks'" "py_int e key = Inr k"
    "map (\<lambda>it. py_int e (fst it)) items = map Inr ks'"
    by (cases ks) (auto simp: it)
  with Cons.IH[of ks' "dict_setitem acc k v"] show ?case by (simp add: it)
qed

lemma sorted_distinct_strict:
  "sorted (xs :: int list) \<Longrightarrow> distinct xs \<Longrightarrow> sorted_wrt (<) xs"
  by (induction xs) (auto simp: less_le)

lemma normalize_minimal_roi_spec:
  assumes "normalize_minimal_roi e roi = Inr roi'"
  shows "\<exists>items ks d. roi = VDict items
           \<and> map (\<lambda>it. py_int e (fst it)) items = map Inr ks
           \<and> roi' = VDict (map (\<lambda>(k, v). (VInt k, v)) d)
           \<and> sorted_wrt (<) (map fst d)
           \<and> map_of d = map_of (rev (zip ks (map snd items)))"
proof -
  from assms obtain items d0 where roi: "roi = VDict items"
    and d0: "int_keys e items [] = Inr d0"
    and roi': "roi' = VDict (map (\<lambda>(k, v). (VInt k, v)) (sort_key fst d0))"
    by (auto simp: normalize_minimal_roi_def ebind_Inr_iff split: val.splits)
  from int_keys_spec[OF d0] obtain ks where ks:
    "map (\<lambda>it. py_int e (fst it)) items = map Inr ks"
    "map_of d0 = map_of (rev (zip ks (map snd items)))"
    "distinct (map fst d0)" by auto
  have dist: "distinct (map fst (sort_key fst d0))"
    using ks(3) by (simp add: distinct_map)
  have "sorted (map fst (sort_key fst d0))" by simp
  with dist have "sorted_wrt (<) (map fst (sort_key fst d0))"
    by (rule sorted_distinct_strict[rotated])
  moreover have "map_of (sort_key fst d0) = map_of d0"
    using ks(3) dist by (simp add: map_of_inject_set)
  ultimately show ?thesis using roi roi' ks(1,2)
    by (intro exI[of _ items] exI[of _ ks] exI[of _ "sort_key fst d0"]) simp
qed


lemma normalize_attributes_stages:
  assumes "normalize_attributes e s = Inr s'"
  obtains s1 s2 where
    "(if hasattr s ''timeframe'' then
        ebind (attribute_of s ''timeframe'') (\<lambda>tf. setattr_py s ''ticker_interval'' tf)
      else Inr s) = Inr s1"
    "(if hasattr s1 ''minimal_roi'' then
        ebind (attribute_of s1 ''minimal_roi'')
          (\<lambda>roi. ebind (normalize_minimal_roi e roi) (\<lambda>roi'. setattr_py s1 ''minimal_roi'' roi'))
      else Inr s1) = Inr s2"
    "(if hasattr s2 ''stoploss'' then
        ebind (attribute_of s2 ''stoploss'')
          (\<lambda>sl. ebind (py_float e sl) (\<lambda>f. setattr_py s2 ''stoploss'' (VFloat f)))
      else Inr s2) = Inr s'"
  using assms unfolding normalize_attributes_def ebind_Inr_iff by blast

lemma normalize_step1:
  assumes "(if hasattr s ''timeframe'' then
        ebind (attribute_of s ''timeframe'') (\<lambda>tf. setattr_py s ''ticker_interval'' tf)
      else Inr s) = Inr s1"
  shows "props s1 = props s" and "class_name s1 = class_name s"
    and "b \<noteq> ''ticker_interval'' \<Longrightarrow> attrs s1 b = attrs s b"
    and "hasattr s ''timeframe'' \<Longrightarrow>
           getattr_py s1 ''ticker_interval'' = getattr_py s ''timeframe''"
  using assms
  by (auto simp: ebind_Inr_iff attribute_of_Inr_iff setattr_py_Inr_iff getattr_py_def
      split: if_splits)

lemma normalize_step2:
  assumes "(if hasattr s1 ''minimal_roi'' then
        ebind (attribute_of s1 ''minimal_roi'')
          (\<lambda>roi. ebind (normalize_minimal_roi e roi) (\<lambda>roi'. setattr_py s1 ''minimal_roi'' roi'))
      else Inr s1) = Inr s2"
  shows "props s2 = props s1" and "class_name s2 = class_name s1"
    and "b \<noteq> ''minimal_roi'' \<Longrightarrow> attrs s2 b = attrs s1 b"
    and "getattr_py s1 ''minimal_roi'' = None \<Longrightarrow> getattr_py s2 ''minimal_roi'' = None"
    and "getattr_py s1 ''minimal_roi'' = Some roi \<Longrightarrow>
           \<exists>roi'. normalize_minimal_roi e roi = Inr roi' \<and> props s1 ''minimal_roi'' = None
                \<and> getattr_py s2 ''minimal_roi'' = Some roi'"
  using assms
  by (auto simp: ebind_Inr_iff attribute_of_Inr_iff setattr_py_Inr_iff getattr_py_def hasattr_def
      split: if_splits)

lemma normalize_step3:
  assumes "(if hasattr s2 ''stoploss'' then
        ebind (attribute_of s2 ''stoploss'')
          (\<lambda>sl. ebind (py_float e sl) (\<lambda>f. setattr_py s2 ''stoploss'' (VFloat f)))
      else Inr s2) = Inr s'"
  shows "props s' = props s2" and "class_name s' = class_name s2"
    and "b \<noteq> ''stoploss'' \<Longrightarrow> attrs s' b = attrs s2 b"
    and "getattr_py s2 ''stoploss'' = None \<Longrightarrow> getattr_py s' ''stoploss'' = None"
    and "getattr_py s2 ''stoploss'' = Some sl \<Longrightarrow>
           \<exists>f. py_float e sl = Inr f \<and> props s2 ''stoploss'' = None
              \<and> getattr_py s' ''stoploss'' = Some (VFloat f)"
  using assms
  by (auto simp: ebind_Inr_iff attribute_of_Inr_iff setattr_py_Inr_iff getattr_py_def hasattr_def
      split: if_splits)

lemma getattr_py_cong:
  "props s' = props s \<Longrightarrow> attrs s' b = attrs s b \<Longrightarrow> getattr_py s' b = getattr_py s b"
  by (simp add: getattr_py_def split: option.splits)

lemma normalize_attributes_frame:
  assumes "normalize_attributes e s = Inr s'"
  shows "props s' = props s" and "class_name s' = class_name s"
    and "b \<noteq> ''ticker_interval'' \<Longrightarrow> b \<noteq> ''minimal_roi'' \<Longrightarrow> b \<noteq> ''stoploss''
           \<Longrightarrow> attrs s' b = attrs s b"
proof -
  from assms obtain s1 s2 where st:
    "(if hasattr s ''timeframe'' then
        ebind (attribute_of s ''timeframe'') (\<lambda>tf. setattr_py s ''ticker_interval'' tf)
      else Inr s) = Inr s1"
    "(if hasattr s1 ''minimal_roi'' then
        ebind (attribute_of s1 ''minimal_roi'')
          (\<lambda>roi. ebind (normalize_minimal_roi e roi) (\<lambda>roi'. setattr_py s1 ''minimal_roi'' roi'))
      else Inr s1) = Inr s2"
    "(if hasattr s2 ''stoploss'' then
        ebind (attribute_of s2 ''stoploss'')
          (\<lambda>sl. ebind (py_float e sl) (\<lambda>f. setattr_py s2 ''stoploss'' (VFloat f)))
      else Inr s2) = Inr s'"
    by (rule normalize_attributes_stages)
  show "props s' = props s"
    using normalize_step1(1)[OF st(1)] normalize_step2(1)[OF st(2)] normalize_step3(1)[OF st(3)]
    by simp
  show "class_name s' = class_name s"
    using normalize_step1(2)[OF st(1)] normalize_step2(2)[OF st(2)] normalize_step3(2)[OF st(3)]
    by simp
  show "attrs s' b = attrs s b"
    if "b \<noteq> ''ticker_interval''" "b \<noteq> ''minimal_roi''" "b \<noteq> ''stoploss''"
    using that normalize_step1(3)[OF st(1), of b] normalize_step2(3)[OF st(2), of b]
      normalize_step3(3)[OF st(3), of b]
    by simp
qed

lemma normalize_attributes_minimal_roi:
  assumes "normalize_attributes e s = Inr s'"
  shows "getattr_py s ''minimal_roi'' = None \<Longrightarrow> getattr_py s' ''minimal_roi'' = None"
    and "getattr_py s ''minimal_roi'' = Some roi \<Longrightarrow>
           \<exists>roi'. normalize_minimal_roi e roi = Inr roi'
                \<and> getattr_py s' ''minimal_roi'' = Some roi'"
proof -
  from assms obtain s1 s2 where st:
    "(if hasattr s ''timeframe'' then
        ebind (attribute_of s ''timeframe'') (\<lambda>tf. setattr_py s ''ticker_interval'' tf)
      else Inr s) = Inr s1"
    "(if hasattr s1 ''minimal_roi'' then
        ebind (attribute_of s1 ''minimal_roi'')
          (\<lambda>roi. ebind (normalize_minimal_roi e roi) (\<lambda>roi'. setattr_py s1 ''minimal_roi'' roi'))
      else Inr s1) = Inr s2"
    "(if hasattr s2 ''stoploss'' then
        ebind (attribute_of s2 ''stoploss'')
          (\<lambda>sl. ebind (py_float e sl) (\<lambda>f. setattr_py s2 ''stoploss'' (VFloat f)))
      else Inr s2) = Inr s'"
    by (rule normalize_attributes_stages)
  have g1: "getattr_py s1 ''minimal_roi'' = getattr_py s ''minimal_roi''"
    using normalize_step1(1,3)[OF st(1)] by (intro getattr_py_cong) simp_all
  have g3: "getattr_py s' ''minimal_roi'' = getattr_py s2 ''minimal_roi''"
    using normalize_step3(1,3)[OF st(3)] by (intro getattr_py_cong) simp_all
  show "getattr_py s ''minimal_roi'' = None \<Longrightarrow> getattr_py s' ''minimal_roi'' = None"
    using normalize_step2(4)[OF st(2)] g1 g3 by simp
  show "getattr_py s ''minimal_roi'' = Some roi \<Longrightarrow>
           \<exists>roi'. normalize_minimal_roi e roi = Inr roi'
                \<and> getattr_py s' ''minimal_roi'' = Some roi'"
    using normalize_step2(5)[OF st(2), of roi] g1 g3 by auto
qed

lemma normalize_attributes_stoploss:
  assumes "normalize_attributes e s = Inr s'"
  shows "getattr_py s ''stoploss'' = None \<Longrightarrow> getattr_py s' ''stoploss'' = None"
    and "getattr_py s ''stoploss'' = Some sl \<Longrightarrow>
           \<exists>f. py_float e sl = Inr f \<and> getattr_py s' ''stoploss'' = Some (VFloat f)"
proof -
  from assms obtain s1 s2 where st:
    "(if hasattr s ''timeframe'' then
        ebind (attribute_of s ''timeframe'') (\<lambda>tf. setattr_py s ''ticker_interval'' tf)
      else Inr s) = Inr s1"
    "(if hasattr s1 ''minimal_roi'' then
        ebind (attribute_of s1 ''minimal_roi'')
          (\<lambda>roi. ebind (normalize_minimal_roi e roi) (\<lambda>roi'. setattr_py s1 ''minimal_roi'' roi'))
      else Inr s1) = Inr s2"
    "(if hasattr s2 ''stoploss'' then
        ebind (attribute_of s2 ''stoploss'')
          (\<lambda>sl. ebind (py_float e sl) (\<lambda>f. setattr_py s2 ''stoploss'' (VFloat f)))
      else Inr s2) = Inr s'"
    by (rule normalize_attributes_stages)
  have g1: "getattr_py s1 ''stoploss'' = getattr_py s ''stoploss''"
    using normalize_step1(1,3)[OF st(1)] by (intro getattr_py_cong) simp_all
  have g2: "getattr_py s2 ''stoploss'' = getattr_py s1 ''stoploss''"
    using normalize_step2(1,3)[OF st(2)] by (intro getattr_py_cong) simp_all
  show "getattr_py s ''stoploss'' = None \<Longrightarrow> getattr_py s' ''stoploss'' = None"
    using normalize_step3(4)[OF st(3)] g1 g2 by simp
  show "getattr_py s ''stoploss'' = Some sl \<Longrightarrow>
           \<exists>f. py_float e sl = Inr f \<and> getattr_py s' ''stoploss'' = Some (VFloat f)"
    using normalize_step3(5)[OF st(3), of sl] g1 g2 by auto
qed

lemma resolve_attributes_stages:
  assumes "resolve_attributes e strategy cfg = Inr (s', cfg', lg)"
  obtains s1 lg1 s2 s3 lg3 where
    "ticker_interval_compat strategy cfg = Inr (s1, lg1)"
    "params_from_file s1 = Inr s2"
    "override_attributes s2 cfg lg1 attributes = Inr (s3, cfg', lg3)"
    "normalize_attributes e s3 = Inr s'"
    "strategy_sanity_validations e s' = Inr ()"
    "lg = lg3 @ log_attributes cfg' attributes"
  using assms by (auto simp: resolve_attributes_def ebind_Inr_iff)

lemma load_strategy_Inr_iff:
  "load_strategy e config = Inr (s', cfg', lg, fs) \<longleftrightarrow>
     (\<exists>cfg name s0 lg0 lg1. config = Some cfg \<and> cfg ''strategy'' = Some (VStr name) \<and> name \<noteq> []
        \<and> priv_load_strategy e name cfg (cfg ''strategy_path'') = Inr (s0, lg0, fs)
        \<and> resolve_attributes e s0 cfg = Inr (s', cfg', lg1) \<and> lg = lg0 @ lg1)"
  by (auto simp: load_strategy_def ebind_Inr_iff Let_def split: option.splits val.splits)

lemma catalog_names:
  assumes "(a, d) \<in> set attributes"
  shows "a \<noteq> ''ticker_interval''" and "a \<noteq> ''_ft_params_from_file''"
    and "d \<noteq> VNone \<Longrightarrow> a \<noteq> ''stoploss'' \<and> a \<noteq> ''timeframe''"
  using assms by (auto simp: attributes_def)

text \<open>What the override loop leaves for an attribute the configuration sets.\<close>

lemma override_attributes_config:
  assumes "override_attributes s c l attributes = Inr (s', c', l')"
    and "(a, d) \<in> set attributes" and "c a = Some cv" and "props s a = None"
  shows "c' a = Some cv" and "getattr_py s' a = Some cv" and "props s' = props s"
proof -
  from override_attributes_step[OF assms(1) distinct_attributes assms(2)]
  obtain s0 c0 s1 c1 l1 where st:
    "override_attribute_helper s0 c0 a d = Inr (s1, c1, l1)"
    "props s0 = props s" "attrs s0 a = attrs s a" "c0 a = c a"
    "props s' = props s" "attrs s' a = attrs s1 a" "c' a = c1 a" by blast
  from st(1) st(2) st(4) assms(3,4)
  have "c1 a = Some cv" "attrs s1 a = Some cv"
    by (auto simp: helper_cases)
  with st assms(4) show "c' a = Some cv" "getattr_py s' a = Some cv" "props s' = props s"
    by (simp_all add: getattr_py_def)
qed

text \<open>... for an attribute that only the strategy sets ...\<close>

lemma override_attributes_strategy:
  assumes "override_attributes s c l attributes = Inr (s', c', l')"
    and "(a, d) \<in> set attributes" and "c a = None" and "getattr_py s a = Some v"
  shows "c' a = (if v \<noteq> VNone then Some v else None)" and "getattr_py s' a = Some v"
proof -
  from override_attributes_step[OF assms(1) distinct_attributes assms(2)]
  obtain s0 c0 s1 c1 l1 where st:
    "override_attribute_helper s0 c0 a d = Inr (s1, c1, l1)"
    "props s0 = props s" "attrs s0 a = attrs s a" "c0 a = c a"
    "props s' = props s" "attrs s' a = attrs s1 a" "c' a = c1 a" by blast
  have g0: "getattr_py s0 a = Some v"
    using getattr_py_cong[OF st(2) st(3)] assms(4) by simp
  from st(1) g0 st(4) assms(3)
  have "c1 a = (if v \<noteq> VNone then Some v else None)" "s1 = s0"
    by (auto simp: helper_cases)
  with st assms(4) show "c' a = (if v \<noteq> VNone then Some v else None)" "getattr_py s' a = Some v"
    by (simp_all add: getattr_py_def split: option.splits)
qed

text \<open>... and for an attribute that neither sets.\<close>

lemma override_attributes_default:
  assumes "override_attributes s c l attributes = Inr (s', c', l')"
    and "(a, d) \<in> set attributes" and "c a = None" and "getattr_py s a = None"
    and "d \<noteq> VNone"
  shows "c' a = Some d" and "getattr_py s' a = Some d"
proof -
  from override_attributes_step[OF assms(1) distinct_attributes assms(2)]
  obtain s0 c0 s1 c1 l1 where st:
    "override_attribute_helper s0 c0 a d = Inr (s1, c1, l1)"
    "props s0 = props s" "attrs s0 a = attrs s a" "c0 a = c a"
    "props s' = props s" "attrs s' a = attrs s1 a" "c' a = c1 a" by blast
  have p: "props s a = None" using assms(4) by (simp add: getattr_py_def split: option.splits)
  have g0: "getattr_py s0 a = None"
    using getattr_py_cong[OF st(2) st(3)] assms(4) by simp
  from st(1) g0 st(4) assms(3,5)
  have "c1 a = Some d" "attrs s1 a = Some d"
    by (auto simp: helper_cases)
  with st p show "c' a = Some d" "getattr_py s' a = Some d"
    by (simp_all add: getattr_py_def)
qed

text \<open>Normalization keeps every catalog attribute but two.\<close>

lemma normalize_attributes_catalog:
  assumes "normalize_attributes e s = Inr s'" and "(a, d) \<in> set attributes"
    and "a \<noteq> ''minimal_roi''" and "a \<noteq> ''stoploss''"
  shows "getattr_py s' a = getattr_py s a"
  using normalize_attributes_frame[OF assms(1)] catalog_names(1)[OF assms(2)] assms(3,4)
  by (intro getattr_py_cong) simp_all

section \<open>Precedence of configuration, strategy and default\<close>

text \<open>
  In the three theorems of this section the strategy argument of
  \<^const>\<open>resolve_attributes\<close> is the object that \<^verbatim>\<open>_load_strategy\<close> returned, and
  ``after resolution'' is the result of \<^const>\<open>resolve_attributes\<close>, which
  \<^const>\<open>load_strategy\<close> returns unchanged (\<open>load_strategy_Inr_iff\<close>).
\<close>

text \<open>
  C1, as amended. For a catalog attribute that the configuration sets and that is not
  a property of the strategy's type, the configuration keeps its value after resolution
  and the resolved strategy holds that value: unchanged for every attribute other than
  \<^verbatim>\<open>minimal_roi\<close> and \<^verbatim>\<open>stoploss\<close>; for \<^verbatim>\<open>minimal_roi\<close> the mapping rebuilt
  with integer keys in ascending order, and for \<^verbatim>\<open>stoploss\<close> the value converted to
  a float, as normalization leaves them.
\<close>

theorem configuration_wins:
  assumes "resolve_attributes e strategy cfg = Inr (s', cfg', lg)"
    and "(a, d) \<in> set attributes" and "cfg a = Some cv" and "\<not> is_property strategy a"
  shows "cfg' a = Some cv
       \<and> (a \<noteq> ''minimal_roi'' \<and> a \<noteq> ''stoploss'' \<longrightarrow> getattr_py s' a = Some cv)
       \<and> (a = ''minimal_roi'' \<longrightarrow>
            (\<exists>roi. normalize_minimal_roi e cv = Inr roi \<and> getattr_py s' a = Some roi))
       \<and> (a = ''stoploss'' \<longrightarrow>
            (\<exists>f. py_float e cv = Inr f \<and> getattr_py s' a = Some (VFloat f)))"
proof -
  from assms(1) obtain s1 l1 s2 s3 l3 where st:
    "ticker_interval_compat strategy cfg = Inr (s1, l1)"
    "params_from_file s1 = Inr s2"
    "override_attributes s2 cfg l1 attributes = Inr (s3, cfg', l3)"
    "normalize_attributes e s3 = Inr s'"
    by (rule resolve_attributes_stages)
  have "props s2 = props strategy"
    using ticker_interval_compat_frame(1)[OF st(1)] params_from_file_frame[OF st(2)] by simp
  with assms(4) have pa: "props s2 a = None" by (simp add: is_property_def)
  note ov = override_attributes_config[OF st(3) assms(2,3) pa]
  have 1: "cfg' a = Some cv" by (rule ov(1))
  have 2: "getattr_py s' a = Some cv" if "a \<noteq> ''minimal_roi''" "a \<noteq> ''stoploss''"
    using normalize_attributes_catalog[OF st(4) assms(2) that] ov(2) by simp
  have 3: "\<exists>roi. normalize_minimal_roi e cv = Inr roi \<and> getattr_py s' a = Some roi"
    if "a = ''minimal_roi''"
    using normalize_attributes_minimal_roi(2)[OF st(4), of cv] ov(2) that by simp
  have 4: "\<exists>f. py_float e cv = Inr f \<and> getattr_py s' a = Some (VFloat f)"
    if "a = ''stoploss''"
    using normalize_attributes_stoploss(2)[OF st(4), of cv] ov(2) that by simp
  from 1 2 3 4 show ?thesis by blast
qed


text \<open>
  C2, as amended. For a catalog attribute with a default other than \<^verbatim>\<open>None\<close> that
  the configuration does not set: if the loaded strategy does not have the attribute at
  all, then after resolution the configuration holds the default and so does the
  strategy (\<^verbatim>\<open>minimal_roi\<close> in its normalized form). If the strategy has the
  attribute with the value \<^verbatim>\<open>None\<close>, the default is not applied: for the attributes
  that the hyperopt parameters cannot replace, the strategy still holds \<^verbatim>\<open>None\<close> and
  the configuration has no entry.
\<close>

theorem default_fills_gap:
  assumes "resolve_attributes e s0 cfg = Inr (s', cfg', lg)"
    and "(a, d) \<in> set attributes" and "d \<noteq> VNone" and "cfg a = None"
  shows "(\<not> hasattr s0 a \<longrightarrow>
            cfg' a = Some d
          \<and> (a \<noteq> ''minimal_roi'' \<longrightarrow> getattr_py s' a = Some d)
          \<and> (a = ''minimal_roi'' \<longrightarrow>
               (\<exists>roi. normalize_minimal_roi e d = Inr roi \<and> getattr_py s' a = Some roi)))
       \<and> (getattr_py s0 a = Some VNone \<and> a \<notin> overlay_targets \<longrightarrow>
            cfg' a = None \<and> getattr_py s' a = Some VNone)"
proof -
  from assms(1) obtain s1 l1 s2 s3 l3 where st:
    "ticker_interval_compat s0 cfg = Inr (s1, l1)"
    "params_from_file s1 = Inr s2"
    "override_attributes s2 cfg l1 attributes = Inr (s3, cfg', l3)"
    "normalize_attributes e s3 = Inr s'"
    by (rule resolve_attributes_stages)
  from catalog_names(3)[OF assms(2) assms(3)]
  have ne: "a \<noteq> ''stoploss''" "a \<noteq> ''timeframe''" by simp_all
  have g1: "getattr_py s1 a = getattr_py s0 a"
    using ticker_interval_compat_frame(1,3)[OF st(1)] ne(2) by (intro getattr_py_cong) simp_all
  have absent: "cfg' a = Some d
          \<and> (a \<noteq> ''minimal_roi'' \<longrightarrow> getattr_py s' a = Some d)
          \<and> (a = ''minimal_roi'' \<longrightarrow>
               (\<exists>roi. normalize_minimal_roi e d = Inr roi \<and> getattr_py s' a = Some roi))"
    if h: "\<not> hasattr s0 a"
  proof -
    from h g1 have "\<not> hasattr s1 a" by (simp add: hasattr_def)
    with params_from_file_frame[OF st(2), of a] have "getattr_py s2 a = None"
      by (simp add: hasattr_def)
    note ov = override_attributes_default[OF st(3) assms(2) assms(4) this assms(3)]
    have "getattr_py s' a = Some d" if "a \<noteq> ''minimal_roi''"
      using normalize_attributes_catalog[OF st(4) assms(2) that ne(1)] ov(2) by simp
    moreover have "\<exists>roi. normalize_minimal_roi e d = Inr roi \<and> getattr_py s' a = Some roi"
      if "a = ''minimal_roi''"
      using normalize_attributes_minimal_roi(2)[OF st(4), of d] ov(2) that by simp
    ultimately show ?thesis using ov(1) by blast
  qed
  have null: "cfg' a = None \<and> getattr_py s' a = Some VNone"
    if h: "getattr_py s0 a = Some VNone" and nt: "a \<notin> overlay_targets"
  proof -
    have "getattr_py s2 a = getattr_py s1 a"
      using params_from_file_frame[OF st(2), of a] nt by (intro getattr_py_cong) simp_all
    with g1 h have "getattr_py s2 a = Some VNone" by simp
    note ov = override_attributes_strategy[OF st(3) assms(2) assms(4) this]
    from nt have "a \<noteq> ''minimal_roi''" by (auto simp: overlay_targets_def)
    from normalize_attributes_catalog[OF st(4) assms(2) this ne(1)] ov
    show ?thesis by simp
  qed
  show ?thesis
    by (rule conjI; (rule impI)?) (erule absent, elim conjE, erule (1) null)
qed

text \<open>
  C3, as amended. For a catalog attribute that the configuration does not set and that
  the loaded strategy has with a value other than \<^verbatim>\<open>None\<close>: after resolution the
  configuration holds the strategy's original value whenever the attribute is not one
  that the hyperopt parameters replace, or the strategy carries no such parameters. In
  general the configuration holds the value that the strategy has once the hyperopt
  parameters are applied, if it is not \<^verbatim>\<open>None\<close>.
\<close>

theorem strategy_value_published:
  assumes "resolve_attributes e s0 cfg = Inr (s', cfg', lg)"
    and "(a, d) \<in> set attributes" and "cfg a = None"
    and "getattr_py s0 a = Some v" and "v \<noteq> VNone"
  shows "(a \<notin> overlay_targets
            \<or> (\<exists>params. getattr_py s0 ''_ft_params_from_file'' = Some params \<and> \<not> py_truthy params)
          \<longrightarrow> cfg' a = Some v)
       \<and> (\<forall>s1 l1 s2 w. ticker_interval_compat s0 cfg = Inr (s1, l1) \<and> params_from_file s1 = Inr s2
             \<and> getattr_py s2 a = Some w \<and> w \<noteq> VNone \<longrightarrow> cfg' a = Some w)"
proof -
  from assms(1) obtain s1 l1 s2 s3 l3 where st:
    "ticker_interval_compat s0 cfg = Inr (s1, l1)"
    "params_from_file s1 = Inr s2"
    "override_attributes s2 cfg l1 attributes = Inr (s3, cfg', l3)"
    "normalize_attributes e s3 = Inr s'"
    by (rule resolve_attributes_stages)
  have after: "cfg' a = Some w" if "getattr_py s2 a = Some w" "w \<noteq> VNone" for w
    using override_attributes_strategy(1)[OF st(3) assms(2) assms(3) that(1)] that(2) by simp
  have same1: "getattr_py s1 b = getattr_py s0 b" if "hasattr s0 b \<or> b \<noteq> ''timeframe''" for b
  proof (cases "b = ''timeframe''")
    case True
    with that have "hasattr s0 ''timeframe''" by simp
    from ticker_interval_compat_frame(4)[OF st(1) this] show ?thesis by simp
  next
    case False
    then show ?thesis
      using ticker_interval_compat_frame(1,3)[OF st(1)] by (intro getattr_py_cong) simp_all
  qed
  have g1: "getattr_py s1 a = Some v"
    using same1[of a] assms(4) by (simp add: hasattr_def)
  have 1: "cfg' a = Some v" if "a \<notin> overlay_targets"
  proof -
    have "getattr_py s2 a = getattr_py s1 a"
      using params_from_file_frame[OF st(2), of a] that by (intro getattr_py_cong) simp_all
    with g1 after assms(5) show ?thesis by simp
  qed
  have 2: "cfg' a = Some v"
    if "getattr_py s0 ''_ft_params_from_file'' = Some params" "\<not> py_truthy params" for params
  proof -
    have "getattr_py s1 ''_ft_params_from_file'' = Some params"
      using same1[of "''_ft_params_from_file''"] that(1) by simp
    from params_from_file_falsy[OF st(2) this that(2)] g1 after assms(5) show ?thesis by simp
  qed
  have 3: "cfg' a = Some w"
    if "ticker_interval_compat s0 cfg = Inr (t1, m1)" "params_from_file t1 = Inr t2"
      "getattr_py t2 a = Some w" "w \<noteq> VNone" for t1 m1 t2 w
  proof -
    from that(1) st(1) have "t1 = s1" by simp
    with that(2) st(2) have "t2 = s2" by simp
    with after that(3,4) show ?thesis by simp
  qed
  from 1 2 3 show ?thesis by blast
qed

section \<open>Normalized attributes\<close>

lemma normalize_attributes_hasattr:
  assumes "normalize_attributes e s = Inr s'"
  shows "hasattr s' ''minimal_roi'' = hasattr s ''minimal_roi''"
    and "hasattr s' ''stoploss'' = hasattr s ''stoploss''"
proof -
  show "hasattr s' ''minimal_roi'' = hasattr s ''minimal_roi''"
  proof (cases "getattr_py s ''minimal_roi''")
    case None
    with normalize_attributes_minimal_roi(1)[OF assms] show ?thesis by (simp add: hasattr_def)
  next
    case (Some roi)
    with normalize_attributes_minimal_roi(2)[OF assms, of roi] show ?thesis
      by (auto simp: hasattr_def)
  qed
  show "hasattr s' ''stoploss'' = hasattr s ''stoploss''"
  proof (cases "getattr_py s ''stoploss''")
    case None
    with normalize_attributes_stoploss(1)[OF assms] show ?thesis by (simp add: hasattr_def)
  next
    case (Some sl)
    with normalize_attributes_stoploss(2)[OF assms, of sl] show ?thesis
      by (auto simp: hasattr_def)
  qed
qed

text \<open>
  C5. When normalization returns: a strategy that has \<^verbatim>\<open>minimal_roi\<close> had a mapping
  there whose keys all convert with \<^verbatim>\<open>int\<close>, and now has the mapping with these
  integer keys in strictly ascending order, each key with the value of the last item
  that converts to it; a strategy that has \<^verbatim>\<open>stoploss\<close> now has the float that
  \<^verbatim>\<open>float\<close> makes of the former value.
\<close>

theorem normalized_types:
  assumes "normalize_attributes e s = Inr s'"
  shows "(hasattr s' ''minimal_roi'' \<longrightarrow>
            (\<exists>items ks d. getattr_py s ''minimal_roi'' = Some (VDict items)
               \<and> map (\<lambda>it. py_int e (fst it)) items = map Inr ks
               \<and> getattr_py s' ''minimal_roi'' = Some (VDict (map (\<lambda>(k, v). (VInt k, v)) d))
               \<and> sorted_wrt (<) (map fst d)
               \<and> map_of d = map_of (rev (zip ks (map snd items)))))
       \<and> (hasattr s' ''stoploss'' \<longrightarrow>
            (\<exists>sl f. getattr_py s ''stoploss'' = Some sl \<and> py_float e sl = Inr f
               \<and> getattr_py s' ''stoploss'' = Some (VFloat f)))"
proof (intro conjI impI)
  assume "hasattr s' ''minimal_roi''"
  then obtain roi where g: "getattr_py s ''minimal_roi'' = Some roi"
    using normalize_attributes_hasattr(1)[OF assms] by (auto simp: hasattr_def)
  from normalize_attributes_minimal_roi(2)[OF assms g] obtain roi' where
    n: "normalize_minimal_roi e roi = Inr roi'" and g': "getattr_py s' ''minimal_roi'' = Some roi'"
    by blast
  from normalize_minimal_roi_spec[OF n] g g'
  show "\<exists>items ks d. getattr_py s ''minimal_roi'' = Some (VDict items)
               \<and> map (\<lambda>it. py_int e (fst it)) items = map Inr ks
               \<and> getattr_py s' ''minimal_roi'' = Some (VDict (map (\<lambda>(k, v). (VInt k, v)) d))
               \<and> sorted_wrt (<) (map fst d)
               \<and> map_of d = map_of (rev (zip ks (map snd items)))"
    by auto
next
  assume "hasattr s' ''stoploss''"
  then obtain sl where g: "getattr_py s ''stoploss'' = Some sl"
    using normalize_attributes_hasattr(2)[OF assms] by (auto simp: hasattr_def)
  from normalize_attributes_stoploss(2)[OF assms g] g
  show "\<exists>sl f. getattr_py s ''stoploss'' = Some sl \<and> py_float e sl = Inr f
               \<and> getattr_py s' ''stoploss'' = Some (VFloat f)"
    by auto
qed


section \<open>The compatibility alias\<close>

text \<open>
  C4, as amended. Before the override engine runs: if the strategy has the deprecated
  \<^verbatim>\<open>ticker_interval\<close> attribute but no \<^verbatim>\<open>timeframe\<close>, and the configuration has
  no \<^verbatim>\<open>timeframe\<close> entry, then \<^verbatim>\<open>ticker_interval\<close> is copied onto
  \<^verbatim>\<open>timeframe\<close> and the deprecation warning is logged; in every other case the
  strategy is unchanged and nothing is logged.
\<close>

theorem ticker_interval_alias:
  "(getattr_py strategy ''ticker_interval'' = Some ti \<and> \<not> hasattr strategy ''timeframe''
      \<and> cfg ''timeframe'' = None \<longrightarrow>
      ticker_interval_compat strategy cfg
        = Inr (strategy\<lparr>attrs := (attrs strategy)(''timeframe'' \<mapsto> ti)\<rparr>,
               [Warning_deprecated_ticker_interval]))
   \<and> (\<not> (hasattr strategy ''ticker_interval'' \<and> \<not> hasattr strategy ''timeframe''
           \<and> cfg ''timeframe'' = None) \<longrightarrow>
      ticker_interval_compat strategy cfg = Inr (strategy, []))"
  by (auto simp: ticker_interval_compat_cases hasattr_def split: option.splits)

section \<open>Validation of the required keys\<close>

lemma all_keys_in_dict:
  assumes "getattr_py s a = Some (VDict items)"
  shows "all_keys_in s a ks = Inr (\<forall>k\<in>set ks. VStr k \<in> fst ` set items)"
proof (induction ks)
  case Nil
  show ?case by simp
next
  case (Cons k ks)
  from assms have "attribute_of s a = Inr (VDict items)" by (simp add: attribute_of_Inr_iff)
  with Cons show ?case by simp
qed

text \<open>
  C6. For a strategy whose \<^verbatim>\<open>order_types\<close> and \<^verbatim>\<open>order_time_in_force\<close> are
  mappings, the validation raises \<^verbatim>\<open>ImportError\<close> with a message that names the
  strategy's class exactly when one of the mappings lacks a required key, and returns
  silently otherwise; the failure is never the \<^verbatim>\<open>OperationalException\<close> of a
  strategy that could not be found.
\<close>

theorem required_keys_validated:
  assumes "getattr_py s ''order_types'' = Some (VDict ot)"
    and "getattr_py s ''order_time_in_force'' = Some (VDict tif)"
  shows "strategy_sanity_validations e s =
           (if \<not> (\<forall>k\<in>set (REQUIRED_ORDERTYPES e). VStr k \<in> fst ` set ot) then
              Inl (ImportError (''Impossible to load Strategy '' @ [CHR 0x27] @ class_name s
                     @ [CHR 0x27] @ ''. Order-types mapping is incomplete.''))
            else if \<not> (\<forall>k\<in>set (REQUIRED_ORDERTIF e). VStr k \<in> fst ` set tif) then
              Inl (ImportError (''Impossible to load Strategy '' @ [CHR 0x27] @ class_name s
                     @ [CHR 0x27] @ ''. Order-time-in-force mapping is incomplete.''))
            else Inr ())
       \<and> (\<forall>msg. strategy_sanity_validations e s \<noteq> Inl (OperationalException msg))"
  unfolding strategy_sanity_validations_def all_keys_in_dict[OF assms(1)]
    all_keys_in_dict[OF assms(2)] order_types_incomplete_def order_tif_incomplete_def
  by simp

section \<open>Interface version\<close>



lemma interface_version_total:
  assumes "props s ''_populate_fun_len'' = None" and "props s ''_buy_fun_len'' = None"
    and "props s ''_sell_fun_len'' = None" and "props s ''INTERFACE_VERSION'' = None"
  shows "\<exists>s'. interface_version s = Inr s'"
  using assms
  by (simp add: interface_version_def setattr_py_def is_property_def attribute_of_def
      getattr_py_def)


section \<open>Encoded strategy source\<close>







section \<open>Missing strategy name\<close>

text \<open>
  C9. If the configuration is \<^verbatim>\<open>None\<close> or has no \<^verbatim>\<open>strategy\<close> entry,
  \<^verbatim>\<open>load_strategy\<close> raises \<^verbatim>\<open>OperationalException\<close> with the advice to use
  \<^verbatim>\<open>--strategy\<close>, whatever the environment (so no lookup takes part in the result),
  and the failure is not the one of a strategy that could not be loaded.
\<close>

theorem no_strategy_configuration_error:
  assumes "config = None \<or> (\<exists>cfg. config = Some cfg \<and> cfg ''strategy'' = None)"
  shows "load_strategy e config
           = Inl (OperationalException
                ''No strategy set. Please use `--strategy` to specify the strategy class to use.'')
       \<and> (\<forall>name. load_strategy e config \<noteq> Inl (OperationalException (impossible_to_load name)))"
  using assms
  by (auto simp: load_strategy_def no_strategy_set_def impossible_to_load_def)

section \<open>Properties in the configuration\<close>

lemma getattr_py_property:
  "props s a = Some v \<Longrightarrow> getattr_py s a = Some v"
  by (simp add: getattr_py_def)

text \<open>
  C10. For an attribute that is a read-only property of the strategy's type and is
  also present in the configuration, the helper leaves the strategy untouched, emits no
  log record, and, when the property's value is not \<^verbatim>\<open>None\<close>, overwrites the
  configuration entry with the property's value.
\<close>

theorem property_overwrites_config:
  assumes "props strategy attribute = Some pv" and "cfg attribute = Some cv" and "pv \<noteq> VNone"
  shows "override_attribute_helper strategy cfg attribute dflt
           = Inr (strategy, cfg(attribute \<mapsto> pv), [])"
  using assms
  by (simp add: override_attribute_helper_def is_property_def hasattr_def getattr_py_property)

theorem property_overwrites_config_witness:
  "override_attribute_helper property_strategy [''timeframe'' \<mapsto> VStr ''5m''] ''timeframe'' VNone
     = Inr (property_strategy, [''timeframe'' \<mapsto> VStr ''1h''], [])"
  using property_overwrites_config
    [of property_strategy "''timeframe''" "VStr ''1h''" "[''timeframe'' \<mapsto> VStr ''5m'']"
        "VStr ''5m''" VNone]
  by (simp add: property_strategy_def)

section \<open>Worked examples\<close>

text \<open>
  The examples run the definitions on the sample inputs. In the first three the
  environment's loader returns the named strategy for \<^verbatim>\<open>SampleStrategy\<close>, and
  \<^const>\<open>resolved_attribute\<close> shows the attribute of the strategy that
  \<^verbatim>\<open>load_strategy\<close> returns next to the entry of the configuration.
\<close>

subsection \<open>Configuration entries\<close>

theorem configuration_wins_counterexample:
  "sample_config ''minimal_roi'' = Some (VDict [(VStr ''0'', VFloat (1 / 10))])
   \<and> \<not> is_property sample_strategy ''minimal_roi''
   \<and> resolved_attribute (sample_env sample_strategy) (Some sample_config) ''minimal_roi''
       = Some (Some (VDict [(VInt 0, VFloat (1 / 10))]),
               Some (VDict [(VStr ''0'', VFloat (1 / 10))]))"
  by code_simp

lemma sample_resolution:
  "case resolve_attributes (sample_env sample_strategy) sample_strategy sample_config of
     Inl _ \<Rightarrow> False
   | Inr (s', cfg', lg) \<Rightarrow>
       getattr_py s' ''use_sell_signal'' = Some (VBool False)
     \<and> getattr_py s' ''minimal_roi'' = Some (VDict [(VInt 0, VFloat (1 / 10))])"
  by code_simp

theorem configuration_wins_witness:
  "\<exists>s' cfg' lg.
      resolve_attributes (sample_env sample_strategy) sample_strategy sample_config
        = Inr (s', cfg', lg)
    \<and> cfg' ''use_sell_signal'' = Some (VBool False)
    \<and> getattr_py s' ''use_sell_signal'' = Some (VBool False)
    \<and> cfg' ''minimal_roi'' = Some (VDict [(VStr ''0'', VFloat (1 / 10))])
    \<and> getattr_py s' ''minimal_roi'' = Some (VDict [(VInt 0, VFloat (1 / 10))])"
proof -
  obtain s' cfg' lg where r:
    "resolve_attributes (sample_env sample_strategy) sample_strategy sample_config
       = Inr (s', cfg', lg)"
    and roi: "getattr_py s' ''minimal_roi'' = Some (VDict [(VInt 0, VFloat (1 / 10))])"
    using sample_resolution by (auto split: sum.splits)
  have np: "\<not> is_property sample_strategy a" for a
    by (simp add: is_property_def sample_strategy_def)
  have "cfg' ''use_sell_signal'' = Some (VBool False)
      \<and> getattr_py s' ''use_sell_signal'' = Some (VBool False)"
    using configuration_wins[OF r, of "''use_sell_signal''" "VBool True" "VBool False"] np
    by (simp add: attributes_def sample_config_def)
  moreover have "cfg' ''minimal_roi'' = Some (VDict [(VStr ''0'', VFloat (1 / 10))])"
    using configuration_wins[OF r, of "''minimal_roi''" "VDict [(VStr ''0'', VFloat 10)]"
        "VDict [(VStr ''0'', VFloat (1 / 10))]"] np
    by (simp add: attributes_def sample_config_def)
  ultimately show ?thesis using r roi by blast
qed

subsection \<open>Defaults, strategy values and the alias\<close>

theorem default_fills_gap_counterexample:
  "getattr_py null_strategy ''use_sell_signal'' = Some VNone
   \<and> bare_config ''use_sell_signal'' = None
   \<and> resolved_attribute (sample_env null_strategy) (Some bare_config) ''use_sell_signal''
       = Some (Some VNone, None)"
  by code_simp

lemma null_resolution:
  "case resolve_attributes (sample_env null_strategy) null_strategy bare_config of
     Inl _ \<Rightarrow> False | Inr _ \<Rightarrow> True"
  by code_simp

theorem default_fills_gap_witness:
  "\<exists>s' cfg' lg.
      resolve_attributes (sample_env null_strategy) null_strategy bare_config = Inr (s', cfg', lg)
    \<and> cfg' ''sell_profit_only'' = Some (VBool False)
    \<and> getattr_py s' ''sell_profit_only'' = Some (VBool False)
    \<and> cfg' ''use_sell_signal'' = None
    \<and> getattr_py s' ''use_sell_signal'' = Some VNone"
proof -
  obtain s' cfg' lg where r:
    "resolve_attributes (sample_env null_strategy) null_strategy bare_config = Inr (s', cfg', lg)"
    using null_resolution by (auto split: sum.splits)
  have "cfg' ''sell_profit_only'' = Some (VBool False)
      \<and> getattr_py s' ''sell_profit_only'' = Some (VBool False)"
    using default_fills_gap[OF r, of "''sell_profit_only''" "VBool False"]
    by (simp add: attributes_def bare_config_def hasattr_def getattr_py_def null_strategy_def
        sample_strategy_def)
  moreover have "cfg' ''use_sell_signal'' = None \<and> getattr_py s' ''use_sell_signal'' = Some VNone"
    using default_fills_gap[OF r, of "''use_sell_signal''" "VBool True"]
    by (simp add: attributes_def bare_config_def hasattr_def getattr_py_def null_strategy_def
        sample_strategy_def overlay_targets_def)
  ultimately show ?thesis using r by blast
qed

theorem strategy_value_published_counterexample:
  "getattr_py hyperopt_strategy ''minimal_roi''
     = Some (VDict [(VStr ''20'', VFloat (1 / 20)), (VStr ''0'', VFloat (1 / 10))])
   \<and> bare_config ''minimal_roi'' = None
   \<and> resolved_attribute (sample_env hyperopt_strategy) (Some bare_config) ''minimal_roi''
       = Some (Some (VDict [(VInt 0, VFloat (1 / 2))]), Some (VDict [(VStr ''0'', VFloat (1 / 2))]))"
  by code_simp

lemma hyperopt_resolution:
  "case resolve_attributes (sample_env hyperopt_strategy) hyperopt_strategy bare_config of
     Inl _ \<Rightarrow> False | Inr _ \<Rightarrow> True"
  by code_simp

lemma hyperopt_params:
  "case params_from_file hyperopt_strategy of
     Inl _ \<Rightarrow> False
   | Inr s2 \<Rightarrow> getattr_py s2 ''minimal_roi'' = Some (VDict [(VStr ''0'', VFloat (1 / 2))])"
  by code_simp

theorem strategy_value_published_witness:
  "\<exists>s' cfg' lg.
      resolve_attributes (sample_env hyperopt_strategy) hyperopt_strategy bare_config
        = Inr (s', cfg', lg)
    \<and> cfg' ''timeframe'' = Some (VStr ''5m'')
    \<and> cfg' ''minimal_roi'' = Some (VDict [(VStr ''0'', VFloat (1 / 2))])"
proof -
  obtain s' cfg' lg where r:
    "resolve_attributes (sample_env hyperopt_strategy) hyperopt_strategy bare_config
       = Inr (s', cfg', lg)"
    using hyperopt_resolution by (auto split: sum.splits)
  obtain s2 where p: "params_from_file hyperopt_strategy = Inr s2"
    and g: "getattr_py s2 ''minimal_roi'' = Some (VDict [(VStr ''0'', VFloat (1 / 2))])"
    using hyperopt_params by (auto split: sum.splits)
  have c: "ticker_interval_compat hyperopt_strategy bare_config = Inr (hyperopt_strategy, [])"
    by (simp add: ticker_interval_compat_cases getattr_py_def hyperopt_strategy_def
        sample_strategy_def)
  have "cfg' ''timeframe'' = Some (VStr ''5m'')"
    using strategy_value_published[OF r, of "''timeframe''" VNone "VStr ''5m''"]
    by (simp add: attributes_def bare_config_def getattr_py_def hyperopt_strategy_def
        sample_strategy_def overlay_targets_def)
  moreover have "cfg' ''minimal_roi'' = Some (VDict [(VStr ''0'', VFloat (1 / 2))])"
  proof -
    have m: "(''minimal_roi'', VDict [(VStr ''0'', VFloat 10)]) \<in> set attributes"
      by (simp add: attributes_def)
    have n: "bare_config ''minimal_roi'' = None" by (simp add: bare_config_def)
    have v: "getattr_py hyperopt_strategy ''minimal_roi''
               = Some (VDict [(VStr ''20'', VFloat (1 / 20)), (VStr ''0'', VFloat (1 / 10))])"
      by (simp add: getattr_py_def hyperopt_strategy_def sample_strategy_def)
    from strategy_value_published[OF r m n v] c p g show ?thesis by blast
  qed
  ultimately show ?thesis using r by blast
qed

theorem ticker_interval_alias_counterexample:
  "hasattr sample_strategy ''timeframe'' \<and> \<not> hasattr sample_strategy ''ticker_interval''
   \<and> bare_config ''timeframe'' = None
   \<and> ticker_interval_compat sample_strategy bare_config = Inr (sample_strategy, [])"
  by (simp add: ticker_interval_compat_cases hasattr_def getattr_py_def sample_strategy_def
      bare_config_def)

theorem ticker_interval_alias_witness:
  "ticker_interval_compat legacy_strategy bare_config
     = Inr (legacy_strategy\<lparr>attrs := (attrs legacy_strategy)(''timeframe'' \<mapsto> VStr ''1h'')\<rparr>,
            [Warning_deprecated_ticker_interval])
   \<and> ticker_interval_compat sample_strategy bare_config = Inr (sample_strategy, [])"
  using ticker_interval_alias[of legacy_strategy "VStr ''1h''" bare_config]
    ticker_interval_alias[of sample_strategy "VStr ''1h''" bare_config]
  by (simp add: hasattr_def getattr_py_def legacy_strategy_def sample_strategy_def
      bare_config_def)

subsection \<open>Normalization, validation, loading\<close>

lemma sample_normalization:
  "case normalize_attributes (sample_env sample_strategy) sample_strategy of
     Inl _ \<Rightarrow> False
   | Inr s' \<Rightarrow>
       getattr_py s' ''minimal_roi''
         = Some (VDict [(VInt 0, VFloat (1 / 10)), (VInt 20, VFloat (1 / 20))])
     \<and> getattr_py s' ''stoploss'' = Some (VFloat (- (1 / 10)))
     \<and> getattr_py s' ''ticker_interval'' = Some (VStr ''5m'')"
  by code_simp

theorem normalized_types_witness:
  "\<exists>s'. normalize_attributes (sample_env sample_strategy) sample_strategy = Inr s'
     \<and> getattr_py s' ''minimal_roi''
         = Some (VDict [(VInt 0, VFloat (1 / 10)), (VInt 20, VFloat (1 / 20))])
     \<and> getattr_py s' ''stoploss'' = Some (VFloat (- (1 / 10)))
     \<and> (\<exists>d. getattr_py s' ''minimal_roi'' = Some (VDict (map (\<lambda>(k, v). (VInt k, v)) d))
            \<and> sorted_wrt (<) (map fst d))
     \<and> (\<exists>f. getattr_py s' ''stoploss'' = Some (VFloat f))"
proof -
  obtain s' where n: "normalize_attributes (sample_env sample_strategy) sample_strategy = Inr s'"
    and roi: "getattr_py s' ''minimal_roi''
                = Some (VDict [(VInt 0, VFloat (1 / 10)), (VInt 20, VFloat (1 / 20))])"
    and sl: "getattr_py s' ''stoploss'' = Some (VFloat (- (1 / 10)))"
    using sample_normalization by (auto split: sum.splits)
  from roi sl have h: "hasattr s' ''minimal_roi''" "hasattr s' ''stoploss''"
    by (simp_all add: hasattr_def)
  from normalized_types[OF n] h
  have "(\<exists>d. getattr_py s' ''minimal_roi'' = Some (VDict (map (\<lambda>(k, v). (VInt k, v)) d))
            \<and> sorted_wrt (<) (map fst d))
      \<and> (\<exists>f. getattr_py s' ''stoploss'' = Some (VFloat f))"
    by blast
  with n roi sl show ?thesis by blast
qed

theorem required_keys_validated_witness:
  "strategy_sanity_validations (sample_env sample_strategy) sample_strategy = Inr ()
   \<and> strategy_sanity_validations (sample_env incomplete_strategy) incomplete_strategy
       = Inl (ImportError (''Impossible to load Strategy '' @ [CHR 0x27] @ ''SampleStrategy''
                @ [CHR 0x27] @ ''. Order-types mapping is incomplete.''))"
  using required_keys_validated[of sample_strategy
      "[(VStr ''entry'', VStr ''limit''), (VStr ''exit'', VStr ''limit''),
        (VStr ''stoploss'', VStr ''market''), (VStr ''stoploss_on_exchange'', VBool False)]"
      "[(VStr ''entry'', VStr ''gtc''), (VStr ''exit'', VStr ''gtc'')]"
      "sample_env sample_strategy"]
    required_keys_validated[of incomplete_strategy
      "[(VStr ''entry'', VStr ''limit''), (VStr ''exit'', VStr ''limit''),
        (VStr ''stoploss'', VStr ''market'')]"
      "[(VStr ''entry'', VStr ''gtc''), (VStr ''exit'', VStr ''gtc'')]"
      "sample_env incomplete_strategy"]
  by (simp add: getattr_py_def sample_strategy_def incomplete_strategy_def sample_env_def
      sample_order_types_def sample_order_time_in_force_def)




theorem no_strategy_configuration_error_witness:
  "load_strategy (sample_env sample_strategy) None
     = Inl (OperationalException
          ''No strategy set. Please use `--strategy` to specify the strategy class to use.'')
   \<and> load_strategy (sample_env sample_strategy) (Some [''timeframe'' \<mapsto> VStr ''5m''])
     = Inl (OperationalException
          ''No strategy set. Please use `--strategy` to specify the strategy class to use.'')"
  using no_strategy_configuration_error[of None "sample_env sample_strategy"]
    no_strategy_configuration_error[of "Some [''timeframe'' \<mapsto> VStr ''5m'']"
      "sample_env sample_strategy"]
  by simp

end
